theory Spec2Isabelle
  imports Main "HOL-Library.Word"
begin

section \<open>Payload types of the Azure Monitor client (package insights)\<close>

text \<open>
  The resource file \<^verbatim>\<open>resource_arm_monitor_scheduled_query_rules_log.go\<close> exchanges
  values of the generated client's types. A Go pointer field is an \<open>option\<close>:
  \<open>None\<close> is the nil pointer. Only the fields the resource file touches are kept.
\<close>

record Dimension =
  Name :: "string option"
  Operator :: "string option"
  Values :: "string list option"

record Criteria =
  MetricName :: "string option"
  Dimensions :: "Dimension list option"

datatype OdataTypeBasicAction =
    OdataTypeAction
  | OdataTypeMicrosoftWindowsAzureManagementMonitoringAlertsModelsMicrosoftAppInsightsNexusDataContractsResourcesScheduledQueryRulesAlertingAction
  | OdataTypeMicrosoftWindowsAzureManagementMonitoringAlertsModelsMicrosoftAppInsightsNexusDataContractsResourcesScheduledQueryRulesLogToMetricAction

record LogToMetricAction =
  Criteria :: "Criteria list option"
  OdataType :: OdataTypeBasicAction

text \<open>
  \<^verbatim>\<open>insights.BasicAction\<close> is a Go interface. The Read handler's type switch tells the
  dynamic type \<^verbatim>\<open>insights.LogToMetricAction\<close> (a value) from every other one; the
  Create handler stores a \<^verbatim>\<open>*insights.LogToMetricAction\<close> (a pointer) in it. Every other
  dynamic type, the nil interface included, is kept by the name \<^verbatim>\<open>%T\<close> prints for it.
\<close>

datatype BasicAction =
    Value_LogToMetricAction LogToMetricAction
  | Pointer_LogToMetricAction LogToMetricAction
  | Other_Action string

fun is_Value_LogToMetricAction :: "BasicAction \<Rightarrow> bool" where
  "is_Value_LogToMetricAction (Value_LogToMetricAction a) = True"
| "is_Value_LogToMetricAction (Pointer_LogToMetricAction a) = False"
| "is_Value_LogToMetricAction (Other_Action t) = False"

fun type_name :: "BasicAction \<Rightarrow> string" where
  "type_name (Value_LogToMetricAction a) = ''insights.LogToMetricAction''"
| "type_name (Pointer_LogToMetricAction a) = ''*insights.LogToMetricAction''"
| "type_name (Other_Action t) = t"

type_synonym date_Time = int

record Source =
  Query :: "string option"
  AuthorizedResources :: "string list option"
  DataSourceID :: "string option"
  QueryType :: string

record Schedule =
  FrequencyInMinutes :: "32 word option"
  TimeWindowInMinutes :: "32 word option"

record LogSearchRule =
  Description :: "string option"
  Enabled :: string
  LastUpdatedTime :: "date_Time option"
  ProvisioningState :: string
  Source :: "Source option"
  Schedule :: "Schedule option"
  Action :: BasicAction

definition insights_True :: string where
  "insights_True = ''true''"

definition insights_False :: string where
  "insights_False = ''false''"

record http_Response =
  StatusCode :: int

text \<open>
  \<^verbatim>\<open>autorest.Response\<close> wraps a \<^verbatim>\<open>*http.Response\<close>, nil when no HTTP answer came back.
\<close>

type_synonym autorest_Response = "http_Response option"

text \<open>
  \<^verbatim>\<open>LogSearchRuleResource\<close> embeds \<^verbatim>\<open>*LogSearchRule\<close> (the Create handler fills it with
  \<^verbatim>\<open>LogSearchRule: &insights.LogSearchRule{...}\<close>), so \<^verbatim>\<open>resp.Enabled\<close>, \<^verbatim>\<open>resp.Action\<close> and
  the other promoted fields dereference that pointer.
\<close>

record LogSearchRuleResource =
  Response :: autorest_Response
  LogSearchRule :: "LogSearchRule option"
  ID :: "string option"
  Location :: "string option"
  Tags :: "(string \<times> string) list"

section \<open>Configuration values\<close>

text \<open>
  The blocks of the \<^verbatim>\<open>criteria\<close> set are \<^verbatim>\<open>map[string]interface{}\<close> values with the
  keys of the schema. A key is \<open>None\<close> when the map has no entry for it (the lookup then
  gives the nil interface). The keys \<^verbatim>\<open>name\<close>, \<^verbatim>\<open>operator\<close> and \<^verbatim>\<open>values\<close> of a dimension block
  carry the prefix \<open>dimension_\<close>. A \<^verbatim>\<open>*schema.Set\<close> is kept as the list its \<^verbatim>\<open>List()\<close> gives.
\<close>

record dimension_block =
  dimension_name :: "string option"
  dimension_operator :: "string option"
  dimension_values :: "string list option"

record criteria_block =
  dimension :: "dimension_block list option"
  metric_name :: "string option"

text \<open>
  \<^verbatim>\<open>schema.ResourceData\<close>: the identifier, the new-resource flag and one entry per schema
  field the handlers read or write; \<open>None\<close> is a field that is not set.
\<close>

record ResourceData =
  d_Id :: string
  IsNewResource :: bool
  name :: "string option"
  resource_group_name :: "string option"
  location :: "string option"
  authorized_resources :: "string list option"
  criteria :: "criteria_block list option"
  data_source_id :: "string option"
  description :: "string option"
  enabled :: "bool option"
  frequency :: "int option"
  last_updated_time :: "string option"
  provisioning_state :: "string option"
  query :: "string option"
  query_type :: "string option"
  severity :: "int option"
  time_window :: "int option"
  tags :: "(string \<times> string) list option"

text \<open>\<^verbatim>\<open>d.Get\<close> gives the zero value, or the schema's default, of a field that is not set.\<close>

definition Get_string :: "string option \<Rightarrow> string" where
  "Get_string v = (case v of None \<Rightarrow> [] | Some s \<Rightarrow> s)"

definition Get_enabled :: "ResourceData \<Rightarrow> bool" where
  "Get_enabled d = (case enabled d of None \<Rightarrow> True | Some b \<Rightarrow> b)"

definition Get_criteria :: "ResourceData \<Rightarrow> criteria_block list" where
  "Get_criteria d = (case criteria d of None \<Rightarrow> [] | Some cs \<Rightarrow> cs)"

definition Get_tags :: "ResourceData \<Rightarrow> (string \<times> string) list" where
  "Get_tags d = (case tags d of None \<Rightarrow> [] | Some t \<Rightarrow> t)"

section \<open>Errors\<close>

text \<open>
  One constructor per error the handlers build, with the values formatted into its
  message. The two runtime panics of Go that the code can reach are errors of their own.
\<close>

datatype error =
    PassThrough string
  | ErrorCheckingPresence string string string
  | ImportAsExistsError string string
  | ErrorCreatingOrUpdating string string string
  | ErrorIDEmpty string string
  | ErrorGetting string string string
  | ErrorSettingCriteria string
  | ErrorUnknownActionType string string string
  | ErrorDeleting string string string
  | NilPointerDereference
  | InterfaceConversion

section \<open>Expander\<close>

text \<open>
  Modelled from the spec: \<^verbatim>\<open>utils.ExpandStringSlice\<close> (package azurerm/utils) is not among
  the sources. The spec's Dimension carries a "list of string values", which the
  Expander copies into the payload.
\<close>

definition ExpandStringSlice :: "string list \<Rightarrow> string list option" where
  "ExpandStringSlice input = Some input"

text \<open>
  One dimension block. Each \<^verbatim>\<open>dVal["..."].(T)\<close> is a type assertion, which panics on the
  nil interface of a missing key.
\<close>

definition expandDimension :: "dimension_block \<Rightarrow> error + Dimension" where
  "expandDimension dVal =
     (case dimension_name dVal of
        None \<Rightarrow> Inl InterfaceConversion
      | Some n \<Rightarrow>
          (case dimension_operator dVal of
             None \<Rightarrow> Inl InterfaceConversion
           | Some opr \<Rightarrow>
               (case dimension_values dVal of
                  None \<Rightarrow> Inl InterfaceConversion
                | Some vs \<Rightarrow>
                    Inr \<lparr>Name = Some n, Operator = Some opr, Values = ExpandStringSlice vs\<rparr>)))"

text \<open>The inner loop of \<^verbatim>\<open>expandMonitorScheduledQueryRulesLogCriteria\<close>, appending to \<open>dimensions\<close>.\<close>

fun expandDimensions :: "dimension_block list \<Rightarrow> Dimension list \<Rightarrow> error + Dimension list" where
  "expandDimensions [] dimensions = Inr dimensions"
| "expandDimensions (dVal # rest) dimensions =
     (case expandDimension dVal of
        Inl e \<Rightarrow> Inl e
      | Inr dm \<Rightarrow> expandDimensions rest (dimensions @ [dm]))"

text \<open>The outer loop, appending to \<open>criteria\<close>.\<close>

fun expandCriteria_loop :: "criteria_block list \<Rightarrow> Criteria list \<Rightarrow> error + Criteria list" where
  "expandCriteria_loop [] acc = Inr acc"
| "expandCriteria_loop (v # rest) acc =
     (case dimension v of
        None \<Rightarrow> Inl InterfaceConversion
      | Some ds \<Rightarrow>
          (case expandDimensions ds [] of
             Inl e \<Rightarrow> Inl e
           | Inr dimensions \<Rightarrow>
               (case metric_name v of
                  None \<Rightarrow> Inl InterfaceConversion
                | Some m \<Rightarrow>
                    expandCriteria_loop rest
                      (acc @ [\<lparr>MetricName = Some m, Dimensions = Some dimensions\<rparr>]))))"

definition expandMonitorScheduledQueryRulesLogCriteria ::
  "criteria_block list \<Rightarrow> error + Criteria list option" where
  "expandMonitorScheduledQueryRulesLogCriteria input =
     (case expandCriteria_loop input [] of
        Inl e \<Rightarrow> Inl e
      | Inr cs \<Rightarrow> Inr (Some cs))"

definition expandMonitorScheduledQueryRulesLogToMetricAction ::
  "ResourceData \<Rightarrow> error + LogToMetricAction" where
  "expandMonitorScheduledQueryRulesLogToMetricAction d =
     (let criteriaRaw = Get_criteria d in
      case expandMonitorScheduledQueryRulesLogCriteria criteriaRaw of
        Inl e \<Rightarrow> Inl e
      | Inr cs \<Rightarrow>
          Inr \<lparr>Criteria = cs,
               OdataType = OdataTypeMicrosoftWindowsAzureManagementMonitoringAlertsModelsMicrosoftAppInsightsNexusDataContractsResourcesScheduledQueryRulesLogToMetricAction\<rparr>)"

section \<open>Flattener\<close>

text \<open>Every pointer of a dimension is checked before it is read.\<close>

definition flattenDimension :: "Dimension \<Rightarrow> dimension_block" where
  "flattenDimension dm =
     \<lparr>dimension_name = (case Name dm of None \<Rightarrow> None | Some n \<Rightarrow> Some n),
      dimension_operator = (case Operator dm of None \<Rightarrow> None | Some opr \<Rightarrow> Some opr),
      dimension_values = (case Values dm of None \<Rightarrow> None | Some vs \<Rightarrow> Some vs)\<rparr>"

fun flattenDimension_loop :: "Dimension list \<Rightarrow> dimension_block list \<Rightarrow> dimension_block list" where
  "flattenDimension_loop [] result = result"
| "flattenDimension_loop (dm # rest) result =
     flattenDimension_loop rest (result @ [flattenDimension dm])"

definition flattenAzureRmScheduledQueryRulesLogDimension ::
  "Dimension list option \<Rightarrow> dimension_block list" where
  "flattenAzureRmScheduledQueryRulesLogDimension input =
     (case input of
        None \<Rightarrow> []
      | Some ds \<Rightarrow> flattenDimension_loop ds [])"

text \<open>
  The criteria loop reads \<^verbatim>\<open>*criteria.MetricName\<close> with no check: a nil metric name is a
  nil pointer dereference.
\<close>

fun flattenCriteria_loop :: "Criteria list \<Rightarrow> criteria_block list \<Rightarrow> error + criteria_block list" where
  "flattenCriteria_loop [] result = Inr result"
| "flattenCriteria_loop (c # rest) result =
     (let dims = flattenAzureRmScheduledQueryRulesLogDimension (Dimensions c) in
      case MetricName c of
        None \<Rightarrow> Inl NilPointerDereference
      | Some m \<Rightarrow>
          flattenCriteria_loop rest
            (result @ [\<lparr>dimension = Some dims, metric_name = Some m\<rparr>]))"

definition flattenAzureRmScheduledQueryRulesLogCriteria ::
  "Criteria list option \<Rightarrow> error + criteria_block list" where
  "flattenAzureRmScheduledQueryRulesLogCriteria input =
     (case input of
        None \<Rightarrow> Inr []
      | Some cs \<Rightarrow> flattenCriteria_loop cs [])"

section \<open>Helpers of the provider that the handlers call\<close>

text \<open>
  Modelled from the spec: \<^verbatim>\<open>response.WasNotFound\<close> is not among the sources. The spec's
  provider calls answer with a remote object or NotFound; NotFound is an HTTP answer
  whose status code is 404.
\<close>

definition response_WasNotFound :: "http_Response option \<Rightarrow> bool" where
  "response_WasNotFound resp = (case resp of None \<Rightarrow> False | Some r \<Rightarrow> StatusCode r = 404)"

text \<open>
  Modelled from the spec: \<^verbatim>\<open>utils.ResponseWasNotFound\<close> is not among the sources; it is the
  same test on the response that the remote object carries.
\<close>

definition utils_ResponseWasNotFound :: "autorest_Response \<Rightarrow> bool" where
  "utils_ResponseWasNotFound resp = response_WasNotFound resp"

text \<open>
  Modelled from the spec: \<^verbatim>\<open>utils.FlattenStringSlice\<close> is not among the sources; the
  authorized resources of the remote object are copied into the state as they are.
\<close>

definition FlattenStringSlice :: "string list option \<Rightarrow> string list" where
  "FlattenStringSlice input = (case input of None \<Rightarrow> [] | Some xs \<Rightarrow> xs)"

text \<open>
  Modelled from the spec: \<^verbatim>\<open>tags.Expand\<close> is not among the sources. The spec's tags are a
  string to string mapping, sent with the payload and refreshed from the remote object
  on each Read.
\<close>

definition tags_Expand :: "(string \<times> string) list \<Rightarrow> (string \<times> string) list" where
  "tags_Expand t = t"

text \<open>
  Modelled from the spec: \<^verbatim>\<open>tags.FlattenAndSet\<close> is not among the sources; it stores the
  remote object's tags in the state and returns no error.
\<close>

definition tags_FlattenAndSet ::
  "ResourceData \<Rightarrow> (string \<times> string) list \<Rightarrow> error option \<times> ResourceData" where
  "tags_FlattenAndSet d tagMap = (None, d\<lparr>tags := Some tagMap\<rparr>)"

text \<open>
  The result of \<^verbatim>\<open>azure.ParseAzureResourceID\<close>; \<^verbatim>\<open>id.Path[k]\<close> is the empty string for a
  key the map does not have.
\<close>

record ResourceID =
  ResourceGroup :: string
  Path :: "(string \<times> string) list"

definition Path_lookup :: "ResourceID \<Rightarrow> string \<Rightarrow> string" where
  "Path_lookup rid k = (case map_of (Path rid) k of None \<Rightarrow> [] | Some v \<Rightarrow> v)"

text \<open>
  What the resource file takes from elsewhere and no claim is about: the feature flag,
  the identifier parser, the location normaliser, the RFC 3339 formatter, the two
  expanders of the shared scheduled query rules file, and the error that
  \<^verbatim>\<open>d.Set("criteria", v)\<close> returns (\<open>None\<close> for nil).
\<close>

record env =
  ShouldResourcesBeImported :: bool
  ParseAzureResourceID :: "string \<Rightarrow> string + ResourceID"
  NormalizeLocation :: "string \<Rightarrow> string"
  Format_RFC3339 :: "date_Time \<Rightarrow> string"
  expandMonitorScheduledQueryRulesSource :: "ResourceData \<Rightarrow> Source option"
  expandMonitorScheduledQueryRulesSchedule :: "ResourceData \<Rightarrow> Schedule option"
  Set_criteria :: "criteria_block list \<Rightarrow> string option"

section \<open>The API client\<close>

text \<open>
  The client is an external service. Its answer to a call is a function of the calls
  made so far and of the arguments, and each call is appended to that history; the
  handlers thread the history through.
\<close>

datatype api_call =
    GetCall string string
  | CreateOrUpdateCall string string LogSearchRuleResource
  | DeleteCall string string

record client =
  Get :: "api_call list \<Rightarrow> string \<Rightarrow> string \<Rightarrow> LogSearchRuleResource \<times> string option"
  CreateOrUpdate ::
    "api_call list \<Rightarrow> string \<Rightarrow> string \<Rightarrow> LogSearchRuleResource \<Rightarrow>
       LogSearchRuleResource \<times> string option"
  Delete :: "api_call list \<Rightarrow> string \<Rightarrow> string \<Rightarrow> autorest_Response \<times> string option"

fun is_CreateOrUpdateCall :: "api_call \<Rightarrow> bool" where
  "is_CreateOrUpdateCall (CreateOrUpdateCall rg nm p) = True"
| "is_CreateOrUpdateCall _ = False"

section \<open>Read\<close>

text \<open>
  \<^verbatim>\<open>d.Set\<close> with a nil pointer stores the zero value of the field (the empty string
  for \<^verbatim>\<open>description\<close>); with a non-nil pointer it stores the value pointed to. The handler looks at the error of \<^verbatim>\<open>d.Set\<close> for \<^verbatim>\<open>criteria\<close> only. The
  result is the returned error (\<open>None\<close> for nil), the resource data and the call
  history.
\<close>

definition resourceArmMonitorScheduledQueryRulesLogRead ::
  "env \<Rightarrow> client \<Rightarrow> ResourceData \<Rightarrow> api_call list \<Rightarrow>
     error option \<times> ResourceData \<times> api_call list" where
  "resourceArmMonitorScheduledQueryRulesLogRead e cl d w =
     (case ParseAzureResourceID e (d_Id d) of
        Inl err \<Rightarrow> (Some (PassThrough err), d, w)
      | Inr rid \<Rightarrow>
          (let resourceGroup = ResourceGroup rid;
               nm = Path_lookup rid ''scheduledqueryrules'';
               w1 = w @ [GetCall resourceGroup nm]
           in case Get cl w resourceGroup nm of
             (resp, Some err) \<Rightarrow>
               if utils_ResponseWasNotFound (Response resp)
               then (None, d\<lparr>d_Id := []\<rparr>, w1)
               else (Some (ErrorGetting nm resourceGroup err), d, w1)
           | (resp, None) \<Rightarrow>
               (let d1 = d\<lparr>name := Some nm\<rparr>;
                    d2 = d1\<lparr>resource_group_name := Some resourceGroup\<rparr>;
                    d3 = (case Location resp of
                            None \<Rightarrow> d2
                          | Some l \<Rightarrow> d2\<lparr>location := Some (NormalizeLocation e l)\<rparr>)
                in case LogSearchRule resp of
                  None \<Rightarrow> (Some NilPointerDereference, d3, w1)
                | Some p \<Rightarrow>
                    (let d4 = (case LastUpdatedTime p of
                                 None \<Rightarrow> d3
                               | Some t \<Rightarrow> d3\<lparr>last_updated_time := Some (Format_RFC3339 e t)\<rparr>);
                         d5 = d4\<lparr>provisioning_state := Some (ProvisioningState p)\<rparr>;
                         d6 = (if Enabled p = insights_True
                               then d5\<lparr>enabled := Some True\<rparr>
                               else d5\<lparr>enabled := Some False\<rparr>);
                         d7 = d6\<lparr>description := Some (case Description p of None \<Rightarrow> [] | Some s \<Rightarrow> s)\<rparr>
                     in case Action p of
                       Value_LogToMetricAction action \<Rightarrow>
                         (case flattenAzureRmScheduledQueryRulesLogCriteria (Criteria action) of
                            Inl pnc \<Rightarrow> (Some pnc, d7, w1)
                          | Inr flat \<Rightarrow>
                            (case Set_criteria e flat of
                               Some err \<Rightarrow> (Some (ErrorSettingCriteria err), d7, w1)
                             | None \<Rightarrow>
                              (let d8 = d7\<lparr>criteria := Some flat\<rparr>;
                                   d9 = (case Schedule p of
                                           None \<Rightarrow> d8
                                         | Some schedule \<Rightarrow>
                                             (let s1 = (case FrequencyInMinutes schedule of
                                                          None \<Rightarrow> d8
                                                        | Some f \<Rightarrow> d8\<lparr>frequency := Some (sint f)\<rparr>)
                                              in case TimeWindowInMinutes schedule of
                                                   None \<Rightarrow> s1
                                                 | Some t \<Rightarrow> s1\<lparr>time_window := Some (sint t)\<rparr>));
                                   d10 = (case Source p of
                                            None \<Rightarrow> d9
                                          | Some source \<Rightarrow>
                                              (let s1 = (case AuthorizedResources source of
                                                           None \<Rightarrow> d9
                                                         | Some a \<Rightarrow>
                                                             d9\<lparr>authorized_resources :=
                                                                  Some (FlattenStringSlice (Some a))\<rparr>);
                                                   s2 = (case DataSourceID source of
                                                           None \<Rightarrow> s1
                                                         | Some i \<Rightarrow> s1\<lparr>data_source_id := Some i\<rparr>);
                                                   s3 = (case Query source of
                                                           None \<Rightarrow> s2
                                                         | Some q \<Rightarrow> s2\<lparr>query := Some q\<rparr>)
                                               in s3\<lparr>query_type := Some (QueryType source)\<rparr>))
                               in case tags_FlattenAndSet d10 (Tags resp) of
                                    (r, d11) \<Rightarrow> (r, d11, w1))))
                     | other \<Rightarrow>
                         (Some (ErrorUnknownActionType nm resourceGroup (type_name (Action p))),
                          d7, w1)))))"

section \<open>Create and Update\<close>

text \<open>
  The payload the handler builds from the resource data (lines 260 to 288), given the
  expanded action.
\<close>

definition createUpdate_parameters ::
  "env \<Rightarrow> ResourceData \<Rightarrow> LogToMetricAction \<Rightarrow> LogSearchRuleResource" where
  "createUpdate_parameters e d action =
     (let descr = Get_string (description d);
          enabledRaw = Get_enabled d;
          enabledFlag = (if \<not> enabledRaw then insights_False else insights_True);
          loc = NormalizeLocation e (Get_string (location d));
          source = expandMonitorScheduledQueryRulesSource e d;
          schedule = expandMonitorScheduledQueryRulesSchedule e d;
          expandedTags = tags_Expand (Get_tags d)
      in \<lparr>Response = None,
          LogSearchRule = Some
            \<lparr>Description = Some descr,
             Enabled = enabledFlag,
             LastUpdatedTime = None,
             ProvisioningState = [],
             Source = source,
             Schedule = schedule,
             Action = Pointer_LogToMetricAction action\<rparr>,
          ID = None,
          Location = Some loc,
          Tags = expandedTags\<rparr>)"

text \<open>
  The handler. The import check (lines 247 to 258) either ends the handler with an
  error or lets it go on; a panic of the Expander ends it before the create or update
  call.
\<close>

definition resourceArmMonitorScheduledQueryRulesLogCreateUpdate ::
  "env \<Rightarrow> client \<Rightarrow> ResourceData \<Rightarrow> api_call list \<Rightarrow>
     error option \<times> ResourceData \<times> api_call list" where
  "resourceArmMonitorScheduledQueryRulesLogCreateUpdate e cl d w =
     (let nm = Get_string (name d);
          resourceGroup = Get_string (resource_group_name d)
      in case (if ShouldResourcesBeImported e \<and> IsNewResource d
               then (case Get cl w resourceGroup nm of
                       (existing, err) \<Rightarrow>
                         (let w1 = w @ [GetCall resourceGroup nm]
                          in case (case err of
                                     None \<Rightarrow> None
                                   | Some msg \<Rightarrow>
                                       if \<not> utils_ResponseWasNotFound (Response existing)
                                       then Some (ErrorCheckingPresence nm resourceGroup msg)
                                       else None) of
                               Some failure \<Rightarrow> (Some failure, w1)
                             | None \<Rightarrow>
                                 (case ID existing of
                                    None \<Rightarrow> (None, w1)
                                  | Some i \<Rightarrow>
                                      if i \<noteq> []
                                      then (Some (ImportAsExistsError
                                                    ''azurerm_monitor_scheduled_query_rules_log'' i), w1)
                                      else (None, w1))))
               else (None, w)) of
           (Some failure, w1) \<Rightarrow> (Some failure, d, w1)
         | (None, w1) \<Rightarrow>
             (case expandMonitorScheduledQueryRulesLogToMetricAction d of
                Inl pnc \<Rightarrow> (Some pnc, d, w1)
              | Inr action \<Rightarrow>
                  (let parameters = createUpdate_parameters e d action;
                       w2 = w1 @ [CreateOrUpdateCall resourceGroup nm parameters]
                   in case CreateOrUpdate cl w1 resourceGroup nm parameters of
                     (created, Some err) \<Rightarrow>
                       (Some (ErrorCreatingOrUpdating nm resourceGroup err), d, w2)
                   | (created, None) \<Rightarrow>
                       (let w3 = w2 @ [GetCall resourceGroup nm]
                        in case Get cl w2 resourceGroup nm of
                          (rd, Some err) \<Rightarrow> (Some (PassThrough err), d, w3)
                        | (rd, None) \<Rightarrow>
                            (case ID rd of
                               None \<Rightarrow> (Some (ErrorIDEmpty nm resourceGroup), d, w3)
                             | Some i \<Rightarrow>
                                 resourceArmMonitorScheduledQueryRulesLogRead e cl
                                   (d\<lparr>d_Id := i\<rparr>) w3)))))"

section \<open>Delete\<close>

definition resourceArmMonitorScheduledQueryRulesLogDelete ::
  "env \<Rightarrow> client \<Rightarrow> ResourceData \<Rightarrow> api_call list \<Rightarrow> error option \<times> api_call list" where
  "resourceArmMonitorScheduledQueryRulesLogDelete e cl d w =
     (case ParseAzureResourceID e (d_Id d) of
        Inl err \<Rightarrow> (Some (PassThrough err), w)
      | Inr rid \<Rightarrow>
          (let resourceGroup = ResourceGroup rid;
               nm = Path_lookup rid ''scheduledqueryrules'';
               w1 = w @ [DeleteCall resourceGroup nm]
           in case Delete cl w resourceGroup nm of
             (resp, Some err) \<Rightarrow>
               if \<not> response_WasNotFound resp
               then (Some (ErrorDeleting nm resourceGroup err), w1)
               else (None, w1)
           | (resp, None) \<Rightarrow> (None, w1)))"

section \<open>Schema validation\<close>

text \<open>
  The validators belong to the plugin SDK and are not among the sources; the tables of
  allowed values are the ones the schema of the resource file passes to them. A
  validator gives the list of its errors for a value and the key of its field.
\<close>

datatype validation_error =
    MissingRequired string
  | NotInSlice string

text \<open>
  Modelled from the spec: the SDK's check of a \<^verbatim>\<open>Required\<close> key is not among the sources;
  a required key that has no value is an error.
\<close>

definition Required :: "'a option \<Rightarrow> string \<Rightarrow> validation_error list" where
  "Required v k = (case v of None \<Rightarrow> [MissingRequired k] | Some x \<Rightarrow> [])"

text \<open>
  Modelled from the spec: \<^verbatim>\<open>validation.StringInSlice\<close> is not among the sources. The spec:
  validators reject operator values outside their enumerated sets.
\<close>

definition validation_StringInSlice :: "string list \<Rightarrow> string \<Rightarrow> string \<Rightarrow> validation_error list" where
  "validation_StringInSlice valid v k = (if v \<in> set valid then [] else [NotInSlice k])"

text \<open>
  Modelled from the spec: \<^verbatim>\<open>validation.IntInSlice\<close> is not among the sources. The spec:
  validators reject a severity outside 0..4.
\<close>

definition validation_IntInSlice :: "int list \<Rightarrow> int \<Rightarrow> string \<Rightarrow> validation_error list" where
  "validation_IntInSlice valid v k = (if v \<in> set valid then [] else [NotInSlice k])"

text \<open>The \<^verbatim>\<open>dimension\<close> and \<^verbatim>\<open>criteria\<close> blocks of the schema (lines 83 to 120).\<close>

definition validate_dimension :: "dimension_block \<Rightarrow> validation_error list" where
  "validate_dimension dVal =
     Required (dimension_name dVal) ''name'' @
     (case dimension_operator dVal of
        None \<Rightarrow> [MissingRequired ''operator'']
      | Some opr \<Rightarrow> validation_StringInSlice [''Include''] opr ''operator'') @
     Required (dimension_values dVal) ''values''"

definition validate_criteria :: "criteria_block \<Rightarrow> validation_error list" where
  "validate_criteria v =
     (case dimension v of
        None \<Rightarrow> [MissingRequired ''dimension'']
      | Some ds \<Rightarrow> concat (map validate_dimension ds)) @
     Required (metric_name v) ''metric_name''"

definition criteria_valid :: "criteria_block list \<Rightarrow> bool" where
  "criteria_valid cs = (concat (map validate_criteria cs) = [])"

text \<open>The \<^verbatim>\<open>severity\<close> field of the schema (lines 159 to 169).\<close>

definition severity_ValidateFunc :: "int \<Rightarrow> string \<Rightarrow> validation_error list" where
  "severity_ValidateFunc = validation_IntInSlice [0, 1, 2, 3, 4]"

text \<open>
  Modelled from the spec: the host framework is not among the sources. The spec:
  validation errors are caught before any network call by the schema validators and
  never reach the handlers.
\<close>

definition validate_severity_then_Create ::
  "env \<Rightarrow> client \<Rightarrow> ResourceData \<Rightarrow> api_call list \<Rightarrow>
     validation_error list + (error option \<times> ResourceData \<times> api_call list)" where
  "validate_severity_then_Create e cl d w =
     (case (case severity d of
              None \<Rightarrow> []
            | Some v \<Rightarrow> severity_ValidateFunc v ''severity'') of
        [] \<Rightarrow> Inr (resourceArmMonitorScheduledQueryRulesLogCreateUpdate e cl d w)
      | err # errs \<Rightarrow> Inl (err # errs))"

section \<open>Example inputs\<close>

text \<open>
  A stored identifier with the resource group \<open>rg1\<close> and the rule name \<open>r1\<close>, an
  environment whose parser knows that identifier only, and resource data of the new
  rule \<open>r1\<close> with one criteria block.
\<close>

definition example_id :: string where
  "example_id =
     ''/subscriptions/s1/resourceGroups/rg1/providers/microsoft.insights/scheduledqueryrules/r1''"

definition example_env :: env where
  "example_env =
     \<lparr>ShouldResourcesBeImported = True,
      ParseAzureResourceID =
        (\<lambda>s. if s = example_id
             then Inr \<lparr>ResourceGroup = ''rg1'', Path = [(''scheduledqueryrules'', ''r1'')]\<rparr>
             else Inl ''cannot parse Azure resource ID''),
      NormalizeLocation = (\<lambda>s. s),
      Format_RFC3339 = (\<lambda>t. ''1970-01-01T00:00:00Z''),
      expandMonitorScheduledQueryRulesSource = (\<lambda>d. None),
      expandMonitorScheduledQueryRulesSchedule = (\<lambda>d. None),
      Set_criteria = (\<lambda>v. None)\<rparr>"

definition example_criteria :: "criteria_block list" where
  "example_criteria =
     [\<lparr>dimension = Some [\<lparr>dimension_name = Some ''InstanceName'',
                          dimension_operator = Some ''Include'',
                          dimension_values = Some ['''']\<rparr>],
       metric_name = Some ''Average_%_Idle_Time''\<rparr>]"

definition example_d :: ResourceData where
  "example_d =
     \<lparr>d_Id = example_id,
      IsNewResource = True,
      name = Some ''r1'',
      resource_group_name = Some ''rg1'',
      location = None,
      authorized_resources = None,
      criteria = Some example_criteria,
      data_source_id = None,
      description = None,
      enabled = None,
      frequency = None,
      last_updated_time = None,
      provisioning_state = None,
      query = None,
      query_type = None,
      severity = None,
      time_window = None,
      tags = None\<rparr>"

text \<open>
  A remote object with the given action and identifier and every optional field absent,
  and the answer of a call that carries no object.
\<close>

definition example_remote :: "BasicAction \<Rightarrow> string option \<Rightarrow> LogSearchRuleResource" where
  "example_remote action i =
     \<lparr>Response = Some \<lparr>StatusCode = 200\<rparr>,
      LogSearchRule = Some
        \<lparr>Description = None,
         Enabled = [],
         LastUpdatedTime = None,
         ProvisioningState = [],
         Source = None,
         Schedule = None,
         Action = action\<rparr>,
      ID = i,
      Location = None,
      Tags = []\<rparr>"

definition no_object :: "int \<Rightarrow> LogSearchRuleResource" where
  "no_object status =
     \<lparr>Response = Some \<lparr>StatusCode = status\<rparr>,
      LogSearchRule = None,
      ID = None,
      Location = None,
      Tags = []\<rparr>"

text \<open>A client every call of which fails with the given status and message.\<close>

definition failing_client :: "int \<Rightarrow> string \<Rightarrow> client" where
  "failing_client status msg =
     \<lparr>Get = (\<lambda>w rg nm. (no_object status, Some msg)),
      CreateOrUpdate = (\<lambda>w rg nm p. (no_object status, Some msg)),
      Delete = (\<lambda>w rg nm. (Some \<lparr>StatusCode = status\<rparr>, Some msg))\<rparr>"

text \<open>A client that holds the given remote object and answers every call with success.\<close>

definition holding_client :: "LogSearchRuleResource \<Rightarrow> client" where
  "holding_client remote =
     \<lparr>Get = (\<lambda>w rg nm. (remote, None)),
      CreateOrUpdate = (\<lambda>w rg nm p. (remote, None)),
      Delete = (\<lambda>w rg nm. (Some \<lparr>StatusCode = 200\<rparr>, None))\<rparr>"

text \<open>
  A client of a service that holds no object until a create or update call was made:
  before, Get answers 404; afterwards, Get answers with the stored object.
\<close>

definition fresh_client :: "LogSearchRuleResource \<Rightarrow> client" where
  "fresh_client remote =
     \<lparr>Get = (\<lambda>w rg nm. if list_ex is_CreateOrUpdateCall w
                       then (remote, None)
                       else (no_object 404, Some ''not found'')),
      CreateOrUpdate = (\<lambda>w rg nm p. (remote, None)),
      Delete = (\<lambda>w rg nm. (Some \<lparr>StatusCode = 200\<rparr>, None))\<rparr>"

text \<open>A log-to-metric action whose criteria list is nil.\<close>

definition example_action :: LogToMetricAction where
  "example_action =
     \<lparr>Criteria = None,
      OdataType = OdataTypeMicrosoftWindowsAzureManagementMonitoringAlertsModelsMicrosoftAppInsightsNexusDataContractsResourcesScheduledQueryRulesLogToMetricAction\<rparr>"

text \<open>The action the Expander gives for \<open>example_d\<close>.\<close>

definition example_expanded :: LogToMetricAction where
  "example_expanded =
     \<lparr>Criteria = Some
        [\<lparr>MetricName = Some ''Average_%_Idle_Time'',
          Dimensions = Some [\<lparr>Name = Some ''InstanceName'',
                              Operator = Some ''Include'',
                              Values = Some ['''']\<rparr>]\<rparr>],
      OdataType = OdataTypeMicrosoftWindowsAzureManagementMonitoringAlertsModelsMicrosoftAppInsightsNexusDataContractsResourcesScheduledQueryRulesLogToMetricAction\<rparr>"

section \<open>Properties of the Expander and the Flattener\<close>

lemma flattenDimension_loop_append:
  "flattenDimension_loop ds acc = acc @ map flattenDimension ds"
  by (induction ds arbitrary: acc) simp_all

lemma flattenCriteria_loop_total:
  "list_all (\<lambda>c. MetricName c \<noteq> None) cs \<Longrightarrow>
   flattenCriteria_loop cs acc =
     Inr (acc @ map (\<lambda>c. \<lparr>dimension = Some (flattenAzureRmScheduledQueryRulesLogDimension (Dimensions c)),
                         metric_name = MetricName c\<rparr>) cs)"
  by (induction cs arbitrary: acc) (auto simp: Let_def)

lemma flattenCriteria_loop_nil:
  "\<not> list_all (\<lambda>c. MetricName c \<noteq> None) cs \<Longrightarrow>
   flattenCriteria_loop cs acc = Inl NilPointerDereference"
  by (induction cs arbitrary: acc) (auto simp: Let_def split: option.splits)

lemma expandDimension_valid:
  "validate_dimension dVal = [] \<Longrightarrow>
   \<exists>dm. expandDimension dVal = Inr dm \<and> flattenDimension dm = dVal"
  by (cases dVal)
     (auto simp: validate_dimension_def expandDimension_def flattenDimension_def Required_def
        ExpandStringSlice_def validation_StringInSlice_def split: option.splits if_splits)

lemma expandDimensions_valid:
  "concat (map validate_dimension ds) = [] \<Longrightarrow>
   \<exists>r. expandDimensions ds acc = Inr (acc @ r) \<and> map flattenDimension r = ds"
proof (induction ds arbitrary: acc)
  case Nil
  then show ?case by simp
next
  case (Cons dVal ds)
  from Cons.prems obtain dm where dm: "expandDimension dVal = Inr dm" "flattenDimension dm = dVal"
    using expandDimension_valid by auto
  from Cons.prems have "concat (map validate_dimension ds) = []" by simp
  from Cons.IH[OF this, of "acc @ [dm]"] obtain r where
    r: "expandDimensions ds (acc @ [dm]) = Inr (acc @ [dm] @ r)" "map flattenDimension r = ds"
    by auto
  show ?case
    by (rule exI[of _ "dm # r"]) (simp add: dm r)
qed

lemma expandCriteria_loop_valid:
  "criteria_valid cs \<Longrightarrow>
   \<exists>r. expandCriteria_loop cs acc = Inr (acc @ r) \<and>
       (\<forall>res. flattenCriteria_loop r res = Inr (res @ cs))"
proof (induction cs arbitrary: acc)
  case Nil
  then show ?case by simp
next
  case (Cons v cs)
  from Cons.prems have v: "validate_criteria v = []" and rest: "criteria_valid cs"
    by (simp_all add: criteria_valid_def)
  from v obtain ds m where vd: "dimension v = Some ds" "metric_name v = Some m"
    and dsv: "concat (map validate_dimension ds) = []"
    by (auto simp: validate_criteria_def Required_def split: option.splits)
  from expandDimensions_valid[OF dsv, of "[]"] obtain dims where
    dims: "expandDimensions ds [] = Inr dims" "map flattenDimension dims = ds"
    by auto
  let ?c = "\<lparr>MetricName = Some m, Dimensions = Some dims\<rparr>"
  from Cons.IH[OF rest, of "acc @ [?c]"] obtain r where
    r: "expandCriteria_loop cs (acc @ [?c]) = Inr (acc @ [?c] @ r)"
       "\<forall>res. flattenCriteria_loop r res = Inr (res @ cs)"
    by auto
  have inv: "\<lparr>dimension = Some (flattenAzureRmScheduledQueryRulesLogDimension (Some dims)),
              metric_name = Some m\<rparr> = v"
    using vd dims
    by (cases v) (simp add: flattenAzureRmScheduledQueryRulesLogDimension_def flattenDimension_loop_append)
  show ?case
    by (rule exI[of _ "?c # r"]) (simp add: vd dims r Let_def inv)
qed

lemma flatten_criteria_total:
  "list_all (\<lambda>c. MetricName c \<noteq> None) (case input of None \<Rightarrow> [] | Some cs \<Rightarrow> cs) \<Longrightarrow>
   flattenAzureRmScheduledQueryRulesLogCriteria input =
     Inr (case input of
            None \<Rightarrow> []
          | Some cs \<Rightarrow>
              map (\<lambda>c. \<lparr>dimension = Some (flattenAzureRmScheduledQueryRulesLogDimension (Dimensions c)),
                        metric_name = MetricName c\<rparr>) cs)"
  by (cases input)
     (simp_all add: flattenAzureRmScheduledQueryRulesLogCriteria_def flattenCriteria_loop_total)

text \<open>
  C1. For every criteria collection that passes schema validation, expanding it and
  flattening the payload succeeds and gives a collection with the same set of
  \<open>{metric_name, dimension{name, operator, values}}\<close> entries.
\<close>

theorem criteria_roundtrip_set_equal:
  "criteria_valid cs \<Longrightarrow>
   \<exists>payload flat.
     expandMonitorScheduledQueryRulesLogCriteria cs = Inr payload \<and>
     flattenAzureRmScheduledQueryRulesLogCriteria payload = Inr flat \<and>
     set flat = set cs"
proof -
  assume "criteria_valid cs"
  from expandCriteria_loop_valid[OF this, of "[]"] obtain r where
    r: "expandCriteria_loop cs [] = Inr r" "\<forall>res. flattenCriteria_loop r res = Inr (res @ cs)"
    by auto
  from r(2) have "flattenCriteria_loop r [] = Inr cs" by simp
  with r(1) show ?thesis
    by (simp add: expandMonitorScheduledQueryRulesLogCriteria_def
        flattenAzureRmScheduledQueryRulesLogCriteria_def)
qed

theorem criteria_roundtrip_set_equal_witness:
  "criteria_valid
     [\<lparr>dimension = Some [\<lparr>dimension_name = Some ''InstanceName'',
                          dimension_operator = Some ''Include'',
                          dimension_values = Some ['''']\<rparr>],
       metric_name = Some ''Average_%_Idle_Time''\<rparr>] \<and>
   (\<exists>payload flat.
      expandMonitorScheduledQueryRulesLogCriteria
        [\<lparr>dimension = Some [\<lparr>dimension_name = Some ''InstanceName'',
                             dimension_operator = Some ''Include'',
                             dimension_values = Some ['''']\<rparr>],
          metric_name = Some ''Average_%_Idle_Time''\<rparr>] = Inr payload \<and>
      flattenAzureRmScheduledQueryRulesLogCriteria payload = Inr flat \<and>
      set flat =
        set [\<lparr>dimension = Some [\<lparr>dimension_name = Some ''InstanceName'',
                                 dimension_operator = Some ''Include'',
                                 dimension_values = Some ['''']\<rparr>],
              metric_name = Some ''Average_%_Idle_Time''\<rparr>])"
proof -
  have h: "criteria_valid
     [\<lparr>dimension = Some [\<lparr>dimension_name = Some ''InstanceName'',
                          dimension_operator = Some ''Include'',
                          dimension_values = Some ['''']\<rparr>],
       metric_name = Some ''Average_%_Idle_Time''\<rparr>]"
    by (simp add: criteria_valid_def validate_criteria_def validate_dimension_def
        Required_def validation_StringInSlice_def)
  from h criteria_roundtrip_set_equal[OF h] show ?thesis
    by (rule conjI)
qed

text \<open>
  C3. The claim is that the Flattener is total, also on a criteria entry whose metric
  name is nil. The criteria loop dereferences the metric name unchecked: on the payload
  with one entry that has neither a metric name nor dimensions it ends in a nil pointer
  dereference instead of a result.
\<close>

theorem flatten_criteria_nil_metric_name_panics:
  "flattenAzureRmScheduledQueryRulesLogCriteria
     (Some [\<lparr>MetricName = None, Dimensions = None\<rparr>]) = Inl NilPointerDereference"
  by (simp add: flattenAzureRmScheduledQueryRulesLogCriteria_def)

text \<open>
  C7. For the configuration with name \<open>r1\<close>, resource group \<open>rg1\<close> and one criteria block
  (metric name \<open>Average_%_Idle_Time\<close>, one dimension \<open>InstanceName\<close>, operator \<open>Include\<close>,
  values \<open>[""]\<close>), the Expander gives a log-to-metric action with the fixed discriminator
  tag, exactly one criterion with that metric name and exactly one dimension with that
  name.
\<close>

theorem expand_scenario_r1:
  "expandMonitorScheduledQueryRulesLogToMetricAction
     (d\<lparr>name := Some ''r1'',
        resource_group_name := Some ''rg1'',
        criteria := Some
          [\<lparr>dimension = Some [\<lparr>dimension_name = Some ''InstanceName'',
                               dimension_operator = Some ''Include'',
                               dimension_values = Some ['''']\<rparr>],
            metric_name = Some ''Average_%_Idle_Time''\<rparr>]\<rparr>) =
   Inr \<lparr>Criteria = Some
          [\<lparr>MetricName = Some ''Average_%_Idle_Time'',
            Dimensions = Some [\<lparr>Name = Some ''InstanceName'',
                                Operator = Some ''Include'',
                                Values = Some ['''']\<rparr>]\<rparr>],
        OdataType = OdataTypeMicrosoftWindowsAzureManagementMonitoringAlertsModelsMicrosoftAppInsightsNexusDataContractsResourcesScheduledQueryRulesLogToMetricAction\<rparr>"
  by (simp add: expandMonitorScheduledQueryRulesLogToMetricAction_def Get_criteria_def
      expandMonitorScheduledQueryRulesLogCriteria_def expandDimension_def
      ExpandStringSlice_def)

section \<open>Conditional writes of the Read handler\<close>

text \<open>
  A field written only when the payload has a value is a record update whose new value
  falls back to the old one.
\<close>

lemma set_location_if_present:
  "(case x of None \<Rightarrow> r | Some v \<Rightarrow> r\<lparr>location := Some (f v)\<rparr>) =
   r\<lparr>location := (case x of None \<Rightarrow> location r | Some v \<Rightarrow> Some (f v))\<rparr>"
  by (cases x) simp_all

lemma set_last_updated_time_if_present:
  "(case x of None \<Rightarrow> r | Some v \<Rightarrow> r\<lparr>last_updated_time := Some (f v)\<rparr>) =
   r\<lparr>last_updated_time := (case x of None \<Rightarrow> last_updated_time r | Some v \<Rightarrow> Some (f v))\<rparr>"
  by (cases x) simp_all

lemma set_enabled_if:
  "(if c then r\<lparr>enabled := Some True\<rparr> else r\<lparr>enabled := Some False\<rparr>) = r\<lparr>enabled := Some c\<rparr>"
  by simp

lemma set_frequency_if_present:
  "(case x of None \<Rightarrow> r | Some v \<Rightarrow> r\<lparr>frequency := Some (f v)\<rparr>) =
   r\<lparr>frequency := (case x of None \<Rightarrow> frequency r | Some v \<Rightarrow> Some (f v))\<rparr>"
  by (cases x) simp_all

lemma set_time_window_if_present:
  "(case x of None \<Rightarrow> r | Some v \<Rightarrow> r\<lparr>time_window := Some (f v)\<rparr>) =
   r\<lparr>time_window := (case x of None \<Rightarrow> time_window r | Some v \<Rightarrow> Some (f v))\<rparr>"
  by (cases x) simp_all

lemma set_authorized_resources_if_present:
  "(case x of None \<Rightarrow> r | Some v \<Rightarrow> r\<lparr>authorized_resources := Some (f v)\<rparr>) =
   r\<lparr>authorized_resources :=
       (case x of None \<Rightarrow> authorized_resources r | Some v \<Rightarrow> Some (f v))\<rparr>"
  by (cases x) simp_all

lemma set_data_source_id_if_present:
  "(case x of None \<Rightarrow> r | Some v \<Rightarrow> r\<lparr>data_source_id := Some v\<rparr>) =
   r\<lparr>data_source_id := (case x of None \<Rightarrow> data_source_id r | Some v \<Rightarrow> Some v)\<rparr>"
  by (cases x) simp_all

lemma set_query_if_present:
  "(case x of None \<Rightarrow> r | Some v \<Rightarrow> r\<lparr>query := Some v\<rparr>) =
   r\<lparr>query := (case x of None \<Rightarrow> query r | Some v \<Rightarrow> Some v)\<rparr>"
  by (cases x) simp_all

lemmas set_if_present =
  set_location_if_present set_last_updated_time_if_present set_enabled_if
  set_frequency_if_present set_time_window_if_present set_authorized_resources_if_present
  set_data_source_id_if_present set_query_if_present

text \<open>
  The state a successful Read leaves: the remote object was fetched, its properties are
  present, its action is a log-to-metric action, the criteria flatten and are stored.
\<close>

lemma read_success_state:
  assumes parse: "ParseAzureResourceID e (d_Id d) = Inr rid"
    and get: "Get cl w (ResourceGroup rid) (Path_lookup rid ''scheduledqueryrules'') = (resp, None)"
    and lsr: "LogSearchRule resp = Some p"
    and act: "Action p = Value_LogToMetricAction a"
    and fl: "flattenAzureRmScheduledQueryRulesLogCriteria (Criteria a) = Inr flat"
    and setc: "Set_criteria e flat = None"
  shows "\<exists>d'. resourceArmMonitorScheduledQueryRulesLogRead e cl d w =
           (None, d', w @ [GetCall (ResourceGroup rid) (Path_lookup rid ''scheduledqueryrules'')]) \<and>
         d_Id d' = d_Id d \<and>
         name d' = Some (Path_lookup rid ''scheduledqueryrules'') \<and>
         resource_group_name d' = Some (ResourceGroup rid) \<and>
         location d' =
           (case Location resp of None \<Rightarrow> location d | Some l \<Rightarrow> Some (NormalizeLocation e l)) \<and>
         last_updated_time d' =
           (case LastUpdatedTime p of
              None \<Rightarrow> last_updated_time d
            | Some t \<Rightarrow> Some (Format_RFC3339 e t)) \<and>
         provisioning_state d' = Some (ProvisioningState p) \<and>
         enabled d' = Some (Enabled p = insights_True) \<and>
         description d' = Some (case Description p of None \<Rightarrow> [] | Some s \<Rightarrow> s) \<and>
         criteria d' = Some flat \<and>
         frequency d' =
           (case Schedule p of
              None \<Rightarrow> frequency d
            | Some s \<Rightarrow>
                (case FrequencyInMinutes s of None \<Rightarrow> frequency d | Some f \<Rightarrow> Some (sint f))) \<and>
         time_window d' =
           (case Schedule p of
              None \<Rightarrow> time_window d
            | Some s \<Rightarrow>
                (case TimeWindowInMinutes s of None \<Rightarrow> time_window d | Some t \<Rightarrow> Some (sint t))) \<and>
         authorized_resources d' =
           (case Source p of
              None \<Rightarrow> authorized_resources d
            | Some s \<Rightarrow>
                (case AuthorizedResources s of
                   None \<Rightarrow> authorized_resources d
                 | Some xs \<Rightarrow> Some xs)) \<and>
         data_source_id d' =
           (case Source p of
              None \<Rightarrow> data_source_id d
            | Some s \<Rightarrow> (case DataSourceID s of None \<Rightarrow> data_source_id d | Some i \<Rightarrow> Some i)) \<and>
         query d' =
           (case Source p of
              None \<Rightarrow> query d
            | Some s \<Rightarrow> (case Query s of None \<Rightarrow> query d | Some q \<Rightarrow> Some q)) \<and>
         query_type d' =
           (case Source p of None \<Rightarrow> query_type d | Some s \<Rightarrow> Some (QueryType s)) \<and>
         severity d' = severity d \<and>
         tags d' = Some (Tags resp)"
  unfolding resourceArmMonitorScheduledQueryRulesLogRead_def
  by (cases "Schedule p"; cases "Source p")
     (simp_all add: parse get lsr act fl setc Let_def tags_FlattenAndSet_def FlattenStringSlice_def
       set_if_present cong: option.case_cong)

section \<open>Properties of the Read handler\<close>

text \<open>
  C4. When the stored identifier parses and the Get of the Read handler fails, a
  NotFound answer makes the handler clear the identifier and return no error; any other
  failure is returned as an error that carries the rule name, the resource group and
  the client's error.
\<close>

theorem read_get_failure:
  "ParseAzureResourceID e (d_Id d) = Inr rid \<Longrightarrow>
   Get cl w (ResourceGroup rid) (Path_lookup rid ''scheduledqueryrules'') = (resp, Some err) \<Longrightarrow>
   resourceArmMonitorScheduledQueryRulesLogRead e cl d w =
     (if utils_ResponseWasNotFound (Response resp)
      then (None, d\<lparr>d_Id := []\<rparr>,
            w @ [GetCall (ResourceGroup rid) (Path_lookup rid ''scheduledqueryrules'')])
      else (Some (ErrorGetting (Path_lookup rid ''scheduledqueryrules'') (ResourceGroup rid) err), d,
            w @ [GetCall (ResourceGroup rid) (Path_lookup rid ''scheduledqueryrules'')]))"
  by (simp add: resourceArmMonitorScheduledQueryRulesLogRead_def Let_def)

theorem read_get_failure_witness:
  "resourceArmMonitorScheduledQueryRulesLogRead example_env (failing_client 404 ''gone'') example_d [] =
     (None, example_d\<lparr>d_Id := []\<rparr>, [GetCall ''rg1'' ''r1'']) \<and>
   resourceArmMonitorScheduledQueryRulesLogRead example_env (failing_client 500 ''boom'') example_d [] =
     (Some (ErrorGetting ''r1'' ''rg1'' ''boom''), example_d, [GetCall ''rg1'' ''r1''])"
proof -
  let ?rid = "\<lparr>ResourceGroup = ''rg1'', Path = [(''scheduledqueryrules'', ''r1'')]\<rparr>"
  have p: "ParseAzureResourceID example_env (d_Id example_d) = Inr ?rid"
    by (simp add: example_env_def example_d_def)
  have g1: "Get (failing_client 404 ''gone'') [] (ResourceGroup ?rid)
              (Path_lookup ?rid ''scheduledqueryrules'') = (no_object 404, Some ''gone'')"
    by (simp add: failing_client_def)
  have g2: "Get (failing_client 500 ''boom'') [] (ResourceGroup ?rid)
              (Path_lookup ?rid ''scheduledqueryrules'') = (no_object 500, Some ''boom'')"
    by (simp add: failing_client_def)
  from read_get_failure[OF p g1] read_get_failure[OF p g2] show ?thesis
    by (simp add: no_object_def Path_lookup_def utils_ResponseWasNotFound_def
        response_WasNotFound_def)
qed

text \<open>
  C10. When the fetched rule's action is not a log-to-metric action value, the Read
  handler returns the unknown-action-type error with the rule name, the resource group
  and the action's type; the criteria of the state are not written.
\<close>

theorem read_unknown_action_type:
  assumes parse: "ParseAzureResourceID e (d_Id d) = Inr rid"
    and get: "Get cl w (ResourceGroup rid) (Path_lookup rid ''scheduledqueryrules'') = (resp, None)"
    and lsr: "LogSearchRule resp = Some p"
    and act: "\<not> is_Value_LogToMetricAction (Action p)"
  shows "\<exists>d'. resourceArmMonitorScheduledQueryRulesLogRead e cl d w =
           (Some (ErrorUnknownActionType (Path_lookup rid ''scheduledqueryrules'')
                    (ResourceGroup rid) (type_name (Action p))),
            d', w @ [GetCall (ResourceGroup rid) (Path_lookup rid ''scheduledqueryrules'')]) \<and>
         criteria d' = criteria d"
  using act unfolding resourceArmMonitorScheduledQueryRulesLogRead_def
  by (cases "Action p")
     (simp_all add: parse get lsr Let_def set_if_present cong: option.case_cong)

theorem read_unknown_action_type_witness:
  "\<not> is_Value_LogToMetricAction (Other_Action ''insights.AlertingAction'') \<and>
   (\<exists>d'. resourceArmMonitorScheduledQueryRulesLogRead example_env
            (holding_client (example_remote (Other_Action ''insights.AlertingAction'') (Some example_id)))
            example_d [] =
          (Some (ErrorUnknownActionType ''r1'' ''rg1'' ''insights.AlertingAction''), d',
           [GetCall ''rg1'' ''r1'']) \<and>
         criteria d' = Some example_criteria)"
proof -
  let ?rid = "\<lparr>ResourceGroup = ''rg1'', Path = [(''scheduledqueryrules'', ''r1'')]\<rparr>"
  let ?p = "\<lparr>Description = None, Enabled = [], LastUpdatedTime = None, ProvisioningState = [],
             Source = None, Schedule = None,
             Action = Other_Action ''insights.AlertingAction''\<rparr>"
  let ?resp = "example_remote (Other_Action ''insights.AlertingAction'') (Some example_id)"
  have p: "ParseAzureResourceID example_env (d_Id example_d) = Inr ?rid"
    by (simp add: example_env_def example_d_def)
  have g: "Get (holding_client ?resp) [] (ResourceGroup ?rid)
             (Path_lookup ?rid ''scheduledqueryrules'') = (?resp, None)"
    by (simp add: holding_client_def)
  have l: "LogSearchRule ?resp = Some ?p"
    by (simp add: example_remote_def)
  have a: "\<not> is_Value_LogToMetricAction (Action ?p)"
    by simp
  from read_unknown_action_type[OF p g l a] show ?thesis
    by (simp add: Path_lookup_def example_d_def)
qed




text \<open>
  A nil criteria list flattens to the empty list and a nil dimensions list to the empty
  list. A Read of a remote object whose properties and metric names are all present
  succeeds whichever collections are absent: nil criteria give an empty \<open>criteria\<close>
  collection, a criteria entry with nil dimensions gets an empty \<open>dimension\<close> collection,
  and nil authorized resources leave \<open>authorized_resources\<close> as it was.
\<close>

lemma read_handles_absent_collections:
  assumes parse: "ParseAzureResourceID e (d_Id d) = Inr rid"
    and get: "Get cl w (ResourceGroup rid) (Path_lookup rid ''scheduledqueryrules'') = (resp, None)"
    and lsr: "LogSearchRule resp = Some p"
    and act: "Action p = Value_LogToMetricAction a"
    and names: "list_all (\<lambda>c. MetricName c \<noteq> None)
                  (case Criteria a of None \<Rightarrow> [] | Some cs \<Rightarrow> cs)"
    and setc: "\<forall>v. Set_criteria e v = None"
  shows "flattenAzureRmScheduledQueryRulesLogCriteria None = Inr [] \<and>
         flattenAzureRmScheduledQueryRulesLogDimension None = [] \<and>
         (\<exists>d'. resourceArmMonitorScheduledQueryRulesLogRead e cl d w =
                 (None, d', w @ [GetCall (ResourceGroup rid) (Path_lookup rid ''scheduledqueryrules'')]) \<and>
               criteria d' =
                 Some (case Criteria a of
                         None \<Rightarrow> []
                       | Some cs \<Rightarrow>
                           map (\<lambda>c. \<lparr>dimension =
                                       Some (case Dimensions c of
                                               None \<Rightarrow> []
                                             | Some ds \<Rightarrow> map flattenDimension ds),
                                     metric_name = MetricName c\<rparr>) cs) \<and>
               authorized_resources d' =
                 (case Source p of
                    None \<Rightarrow> authorized_resources d
                  | Some s \<Rightarrow>
                      (case AuthorizedResources s of
                         None \<Rightarrow> authorized_resources d
                       | Some xs \<Rightarrow> Some xs)))"
proof -
  have dims: "flattenAzureRmScheduledQueryRulesLogDimension x =
                (case x of None \<Rightarrow> [] | Some ds \<Rightarrow> map flattenDimension ds)" for x
    by (cases x)
       (simp_all add: flattenAzureRmScheduledQueryRulesLogDimension_def flattenDimension_loop_append)
  from read_success_state[OF parse get lsr act flatten_criteria_total[OF names] setc[rule_format]]
  obtain d' where
    "resourceArmMonitorScheduledQueryRulesLogRead e cl d w =
       (None, d', w @ [GetCall (ResourceGroup rid) (Path_lookup rid ''scheduledqueryrules'')])"
    and "criteria d' =
           Some (case Criteria a of
                   None \<Rightarrow> []
                 | Some cs \<Rightarrow>
                     map (\<lambda>c. \<lparr>dimension =
                                 Some (flattenAzureRmScheduledQueryRulesLogDimension (Dimensions c)),
                               metric_name = MetricName c\<rparr>) cs)"
    and "authorized_resources d' =
           (case Source p of
              None \<Rightarrow> authorized_resources d
            | Some s \<Rightarrow>
                (case AuthorizedResources s of
                   None \<Rightarrow> authorized_resources d
                 | Some xs \<Rightarrow> Some xs))"
    by blast
  then have "\<exists>d'. resourceArmMonitorScheduledQueryRulesLogRead e cl d w =
                 (None, d', w @ [GetCall (ResourceGroup rid) (Path_lookup rid ''scheduledqueryrules'')]) \<and>
               criteria d' =
                 Some (case Criteria a of
                         None \<Rightarrow> []
                       | Some cs \<Rightarrow>
                           map (\<lambda>c. \<lparr>dimension =
                                       Some (case Dimensions c of
                                               None \<Rightarrow> []
                                             | Some ds \<Rightarrow> map flattenDimension ds),
                                     metric_name = MetricName c\<rparr>) cs) \<and>
               authorized_resources d' =
                 (case Source p of
                    None \<Rightarrow> authorized_resources d
                  | Some s \<Rightarrow>
                      (case AuthorizedResources s of
                         None \<Rightarrow> authorized_resources d
                       | Some xs \<Rightarrow> Some xs))"
    by (intro exI[of _ d']) (simp add: dims cong: option.case_cong)
  then show ?thesis
    by (simp add: flattenAzureRmScheduledQueryRulesLogCriteria_def
        flattenAzureRmScheduledQueryRulesLogDimension_def)
qed


section \<open>Properties of the Delete handler and of the severity validator\<close>

text \<open>
  C5. When the stored identifier parses and the Delete call fails, a NotFound answer
  makes the Delete handler return no error; any other failure is returned as an error
  that carries the rule name, the resource group and the client's error.
\<close>

theorem delete_failure:
  "ParseAzureResourceID e (d_Id d) = Inr rid \<Longrightarrow>
   Delete cl w (ResourceGroup rid) (Path_lookup rid ''scheduledqueryrules'') = (resp, Some err) \<Longrightarrow>
   resourceArmMonitorScheduledQueryRulesLogDelete e cl d w =
     (if response_WasNotFound resp
      then (None, w @ [DeleteCall (ResourceGroup rid) (Path_lookup rid ''scheduledqueryrules'')])
      else (Some (ErrorDeleting (Path_lookup rid ''scheduledqueryrules'') (ResourceGroup rid) err),
            w @ [DeleteCall (ResourceGroup rid) (Path_lookup rid ''scheduledqueryrules'')]))"
  by (simp add: resourceArmMonitorScheduledQueryRulesLogDelete_def Let_def)

theorem delete_failure_witness:
  "resourceArmMonitorScheduledQueryRulesLogDelete example_env (failing_client 404 ''gone'') example_d [] =
     (None, [DeleteCall ''rg1'' ''r1'']) \<and>
   resourceArmMonitorScheduledQueryRulesLogDelete example_env (failing_client 500 ''boom'') example_d [] =
     (Some (ErrorDeleting ''r1'' ''rg1'' ''boom''), [DeleteCall ''rg1'' ''r1''])"
proof -
  let ?rid = "\<lparr>ResourceGroup = ''rg1'', Path = [(''scheduledqueryrules'', ''r1'')]\<rparr>"
  have p: "ParseAzureResourceID example_env (d_Id example_d) = Inr ?rid"
    by (simp add: example_env_def example_d_def)
  have g1: "Delete (failing_client 404 ''gone'') [] (ResourceGroup ?rid)
              (Path_lookup ?rid ''scheduledqueryrules'') = (Some \<lparr>StatusCode = 404\<rparr>, Some ''gone'')"
    by (simp add: failing_client_def)
  have g2: "Delete (failing_client 500 ''boom'') [] (ResourceGroup ?rid)
              (Path_lookup ?rid ''scheduledqueryrules'') = (Some \<lparr>StatusCode = 500\<rparr>, Some ''boom'')"
    by (simp add: failing_client_def)
  from delete_failure[OF p g1] delete_failure[OF p g2] show ?thesis
    by (simp add: Path_lookup_def response_WasNotFound_def)
qed

text \<open>
  C8. The validator of the \<open>severity\<close> field reports no error exactly for the values
  0, 1, 2, 3 and 4. With a value outside that set the validation errors are the outcome
  and the Create handler, and so the Expander, is not run; with a value inside it the
  handler runs.
\<close>

theorem severity_validation:
  "(severity_ValidateFunc v k = []) = (v \<in> {0, 1, 2, 3, 4}) \<and>
   (v \<notin> {0, 1, 2, 3, 4} \<longrightarrow>
      validate_severity_then_Create e cl (d\<lparr>severity := Some v\<rparr>) w =
        Inl (severity_ValidateFunc v ''severity'')) \<and>
   (v \<in> {0, 1, 2, 3, 4} \<longrightarrow>
      validate_severity_then_Create e cl (d\<lparr>severity := Some v\<rparr>) w =
        Inr (resourceArmMonitorScheduledQueryRulesLogCreateUpdate e cl (d\<lparr>severity := Some v\<rparr>) w))"
  by (auto simp: severity_ValidateFunc_def validation_IntInSlice_def
      validate_severity_then_Create_def)

theorem severity_validation_witness:
  "(5::int) \<notin> {0, 1, 2, 3, 4} \<and>
   validate_severity_then_Create example_env (failing_client 500 ''boom'')
     (example_d\<lparr>severity := Some 5\<rparr>) [] = Inl [NotInSlice ''severity''] \<and>
   (3::int) \<in> {0, 1, 2, 3, 4} \<and>
   severity_ValidateFunc 3 ''severity'' = [] \<and>
   validate_severity_then_Create example_env (failing_client 500 ''boom'')
     (example_d\<lparr>severity := Some 3\<rparr>) [] =
     Inr (resourceArmMonitorScheduledQueryRulesLogCreateUpdate example_env (failing_client 500 ''boom'')
            (example_d\<lparr>severity := Some 3\<rparr>) [])"
proof -
  have out: "(5::int) \<notin> {0, 1, 2, 3, 4}" by simp
  have ins: "(3::int) \<in> {0, 1, 2, 3, 4}" by simp
  from severity_validation[of 5 "''severity''" example_env "failing_client 500 ''boom''" example_d "[]"]
    severity_validation[of 3 "''severity''" example_env "failing_client 500 ''boom''" example_d "[]"]
    out ins
  show ?thesis
    by (simp add: severity_ValidateFunc_def validation_IntInSlice_def)
qed

section \<open>Properties of the Create and Update handler\<close>

text \<open>The Read handler only ever appends to the call history.\<close>

lemma read_history_extends:
  "\<exists>r d' rest. resourceArmMonitorScheduledQueryRulesLogRead e cl d w = (r, d', w @ rest)"
proof (cases "ParseAzureResourceID e (d_Id d)")
  case (Inl err)
  then show ?thesis
    by (simp add: resourceArmMonitorScheduledQueryRulesLogRead_def)
next
  case (Inr rid)
  let ?w1 = "w @ [GetCall (ResourceGroup rid) (Path_lookup rid ''scheduledqueryrules'')]"
  have "snd (snd (resourceArmMonitorScheduledQueryRulesLogRead e cl d w)) = ?w1"
    using Inr
    by (simp add: resourceArmMonitorScheduledQueryRulesLogRead_def Let_def tags_FlattenAndSet_def
        split: prod.split option.split sum.split BasicAction.split)
  then have "resourceArmMonitorScheduledQueryRulesLogRead e cl d w =
               (fst (resourceArmMonitorScheduledQueryRulesLogRead e cl d w),
                fst (snd (resourceArmMonitorScheduledQueryRulesLogRead e cl d w)), ?w1)"
    by (metis prod.collapse)
  then show ?thesis by blast
qed

lemma create_exists:
  assumes "ShouldResourcesBeImported e" and "IsNewResource d"
    and "Get cl w (Get_string (resource_group_name d)) (Get_string (name d)) = (existing, err)"
    and "err = None \<or> utils_ResponseWasNotFound (Response existing)"
    and "ID existing = Some i" and "i \<noteq> []"
  shows "resourceArmMonitorScheduledQueryRulesLogCreateUpdate e cl d w =
           (Some (ImportAsExistsError ''azurerm_monitor_scheduled_query_rules_log'' i), d,
            w @ [GetCall (Get_string (resource_group_name d)) (Get_string (name d))])"
  using assms
  by (auto simp: resourceArmMonitorScheduledQueryRulesLogCreateUpdate_def Let_def
      split: option.split)

lemma create_check_fails:
  assumes "ShouldResourcesBeImported e" and "IsNewResource d"
    and "Get cl w (Get_string (resource_group_name d)) (Get_string (name d)) = (existing, Some msg)"
    and "\<not> utils_ResponseWasNotFound (Response existing)"
  shows "resourceArmMonitorScheduledQueryRulesLogCreateUpdate e cl d w =
           (Some (ErrorCheckingPresence (Get_string (name d)) (Get_string (resource_group_name d)) msg),
            d, w @ [GetCall (Get_string (resource_group_name d)) (Get_string (name d))])"
  using assms
  by (simp add: resourceArmMonitorScheduledQueryRulesLogCreateUpdate_def Let_def)

text \<open>
  What the handler does once the import check lets it go on with the history \<open>w1\<close>: the
  check was skipped, or its Get succeeded or reported NotFound and gave no identifier.
\<close>

lemma create_goes_on:
  assumes chk:
    "\<not> (ShouldResourcesBeImported e \<and> IsNewResource d) \<and> w1 = w \<or>
     ShouldResourcesBeImported e \<and> IsNewResource d \<and>
       Get cl w (Get_string (resource_group_name d)) (Get_string (name d)) = (existing, err) \<and>
       (err = None \<or> utils_ResponseWasNotFound (Response existing)) \<and>
       (ID existing = None \<or> ID existing = Some []) \<and>
       w1 = w @ [GetCall (Get_string (resource_group_name d)) (Get_string (name d))]"
    and ex: "expandMonitorScheduledQueryRulesLogToMetricAction d = Inr action"
  shows "resourceArmMonitorScheduledQueryRulesLogCreateUpdate e cl d w =
           (let nm = Get_string (name d);
                resourceGroup = Get_string (resource_group_name d);
                parameters = createUpdate_parameters e d action;
                w2 = w1 @ [CreateOrUpdateCall resourceGroup nm parameters]
            in case CreateOrUpdate cl w1 resourceGroup nm parameters of
                 (created, Some err) \<Rightarrow>
                   (Some (ErrorCreatingOrUpdating nm resourceGroup err), d, w2)
               | (created, None) \<Rightarrow>
                   (let w3 = w2 @ [GetCall resourceGroup nm]
                    in case Get cl w2 resourceGroup nm of
                         (rd, Some err) \<Rightarrow> (Some (PassThrough err), d, w3)
                       | (rd, None) \<Rightarrow>
                           (case ID rd of
                              None \<Rightarrow> (Some (ErrorIDEmpty nm resourceGroup), d, w3)
                            | Some i \<Rightarrow>
                                resourceArmMonitorScheduledQueryRulesLogRead e cl
                                  (d\<lparr>d_Id := i\<rparr>) w3)))"
proof (cases "ShouldResourcesBeImported e \<and> IsNewResource d")
  case False
  with chk have "w1 = w" by blast
  with ex show ?thesis
    by (simp add: resourceArmMonitorScheduledQueryRulesLogCreateUpdate_def Let_def
        if_not_P[OF False] split: prod.split option.split)
next
  case True
  with chk have
    g: "Get cl w (Get_string (resource_group_name d)) (Get_string (name d)) = (existing, err)"
    and c: "err = None \<or> utils_ResponseWasNotFound (Response existing)"
       "ID existing = None \<or> ID existing = Some []"
       "w1 = w @ [GetCall (Get_string (resource_group_name d)) (Get_string (name d))]"
    by blast+
  from c(1) have pre: "(case err of
                          None \<Rightarrow> None
                        | Some msg \<Rightarrow>
                            if \<not> utils_ResponseWasNotFound (Response existing)
                            then Some (ErrorCheckingPresence (Get_string (name d))
                                         (Get_string (resource_group_name d)) msg)
                            else None) = None"
    by (cases err) auto
  from c(2) have idn: "(case ID existing of
                          None \<Rightarrow> (None, w1)
                        | Some i \<Rightarrow>
                            if i \<noteq> []
                            then (Some (ImportAsExistsError
                                          ''azurerm_monitor_scheduled_query_rules_log'' i), w1)
                            else (None, w1)) = (None, w1)"
    by auto
  show ?thesis
    unfolding resourceArmMonitorScheduledQueryRulesLogCreateUpdate_def
    using True g ex
    by (simp add: Let_def pre idn[unfolded c(3)] c(3) split: prod.split option.split)
qed

lemma create_issues_call:
  assumes chk:
    "\<not> (ShouldResourcesBeImported e \<and> IsNewResource d) \<and> w1 = w \<or>
     ShouldResourcesBeImported e \<and> IsNewResource d \<and>
       Get cl w (Get_string (resource_group_name d)) (Get_string (name d)) = (existing, err) \<and>
       (err = None \<or> utils_ResponseWasNotFound (Response existing)) \<and>
       (ID existing = None \<or> ID existing = Some []) \<and>
       w1 = w @ [GetCall (Get_string (resource_group_name d)) (Get_string (name d))]"
    and ex: "expandMonitorScheduledQueryRulesLogToMetricAction d = Inr action"
  shows "\<exists>r d' rest.
           resourceArmMonitorScheduledQueryRulesLogCreateUpdate e cl d w =
             (r, d',
              w1 @ CreateOrUpdateCall (Get_string (resource_group_name d)) (Get_string (name d))
                     (createUpdate_parameters e d action) # rest)"
proof -
  let ?rg = "Get_string (resource_group_name d)"
  let ?nm = "Get_string (name d)"
  let ?par = "createUpdate_parameters e d action"
  let ?w2 = "w1 @ [CreateOrUpdateCall ?rg ?nm ?par]"
  obtain created cerr where cr: "CreateOrUpdate cl w1 ?rg ?nm ?par = (created, cerr)"
    by (cases "CreateOrUpdate cl w1 ?rg ?nm ?par")
  obtain rd gerr where gt: "Get cl ?w2 ?rg ?nm = (rd, gerr)"
    by (cases "Get cl ?w2 ?rg ?nm")
  show ?thesis
  proof (cases cerr)
    case (Some err)
    with create_goes_on[OF chk ex] cr show ?thesis
      by (simp add: Let_def)
  next
    case None
    note cnone = None
    show ?thesis
    proof (cases gerr)
      case (Some err)
      with create_goes_on[OF chk ex] cr gt cnone show ?thesis
        by (simp add: Let_def)
    next
      case None
      note gnone = None
      show ?thesis
      proof (cases "ID rd")
        case None
        with create_goes_on[OF chk ex] cr gt cnone gnone show ?thesis
          by (simp add: Let_def)
      next
        case (Some i)
        from read_history_extends[of e cl "d\<lparr>d_Id := i\<rparr>" "?w2 @ [GetCall ?rg ?nm]"]
        obtain r d' rest where
          "resourceArmMonitorScheduledQueryRulesLogRead e cl (d\<lparr>d_Id := i\<rparr>) (?w2 @ [GetCall ?rg ?nm]) =
             (r, d', (?w2 @ [GetCall ?rg ?nm]) @ rest)"
          by blast
        with create_goes_on[OF chk ex] cr gt cnone gnone Some show ?thesis
          by (simp add: Let_def)
      qed
    qed
  qed
qed

lemma create_then_read:
  assumes chk:
    "\<not> (ShouldResourcesBeImported e \<and> IsNewResource d) \<and> w1 = w \<or>
     ShouldResourcesBeImported e \<and> IsNewResource d \<and>
       Get cl w (Get_string (resource_group_name d)) (Get_string (name d)) = (existing, err) \<and>
       (err = None \<or> utils_ResponseWasNotFound (Response existing)) \<and>
       (ID existing = None \<or> ID existing = Some []) \<and>
       w1 = w @ [GetCall (Get_string (resource_group_name d)) (Get_string (name d))]"
    and ex: "expandMonitorScheduledQueryRulesLogToMetricAction d = Inr action"
    and cr: "CreateOrUpdate cl w1 (Get_string (resource_group_name d)) (Get_string (name d))
               (createUpdate_parameters e d action) = (created, None)"
    and gt: "Get cl (w1 @ [CreateOrUpdateCall (Get_string (resource_group_name d)) (Get_string (name d))
                             (createUpdate_parameters e d action)])
               (Get_string (resource_group_name d)) (Get_string (name d)) = (rd, None)"
    and idn: "ID rd = Some i"
  shows "resourceArmMonitorScheduledQueryRulesLogCreateUpdate e cl d w =
           resourceArmMonitorScheduledQueryRulesLogRead e cl (d\<lparr>d_Id := i\<rparr>)
             (w1 @ [CreateOrUpdateCall (Get_string (resource_group_name d)) (Get_string (name d))
                      (createUpdate_parameters e d action),
                    GetCall (Get_string (resource_group_name d)) (Get_string (name d))])"
  using create_goes_on[OF chk ex] cr gt idn
  by (simp add: Let_def)

text \<open>
  C6, as the code has it. For a new resource under import protection: when the Get of
  the import check succeeds or reports NotFound and gives a non-empty identifier, the
  handler fails with the import error and the only call made is that Get; when that
  Get fails with anything but NotFound, the handler fails with the presence-check
  error and the only call made is that Get. When the check is skipped, or its Get
  succeeds or reports NotFound and gives no identifier, the handler (the criteria
  blocks having their keys) issues the create or update call next; and when that call
  and the Get after it succeed and give an identifier, the handler stores the
  identifier and ends as the Read handler does.
\<close>

theorem create_update_import_protection:
  "(ShouldResourcesBeImported e \<and> IsNewResource d \<and>
    Get cl w (Get_string (resource_group_name d)) (Get_string (name d)) = (existing, err) \<and>
    (err = None \<or> utils_ResponseWasNotFound (Response existing)) \<and>
    ID existing = Some i \<and> i \<noteq> [] \<longrightarrow>
    resourceArmMonitorScheduledQueryRulesLogCreateUpdate e cl d w =
      (Some (ImportAsExistsError ''azurerm_monitor_scheduled_query_rules_log'' i), d,
       w @ [GetCall (Get_string (resource_group_name d)) (Get_string (name d))])) \<and>
   (ShouldResourcesBeImported e \<and> IsNewResource d \<and>
    Get cl w (Get_string (resource_group_name d)) (Get_string (name d)) = (failed, Some msg) \<and>
    \<not> utils_ResponseWasNotFound (Response failed) \<longrightarrow>
    resourceArmMonitorScheduledQueryRulesLogCreateUpdate e cl d w =
      (Some (ErrorCheckingPresence (Get_string (name d)) (Get_string (resource_group_name d)) msg),
       d, w @ [GetCall (Get_string (resource_group_name d)) (Get_string (name d))])) \<and>
   ((\<not> (ShouldResourcesBeImported e \<and> IsNewResource d) \<and> w1 = w \<or>
     ShouldResourcesBeImported e \<and> IsNewResource d \<and>
       Get cl w (Get_string (resource_group_name d)) (Get_string (name d)) = (absent, aerr) \<and>
       (aerr = None \<or> utils_ResponseWasNotFound (Response absent)) \<and>
       (ID absent = None \<or> ID absent = Some []) \<and>
       w1 = w @ [GetCall (Get_string (resource_group_name d)) (Get_string (name d))]) \<and>
    expandMonitorScheduledQueryRulesLogToMetricAction d = Inr action \<longrightarrow>
    (\<exists>r d' rest.
       resourceArmMonitorScheduledQueryRulesLogCreateUpdate e cl d w =
         (r, d',
          w1 @ CreateOrUpdateCall (Get_string (resource_group_name d)) (Get_string (name d))
                 (createUpdate_parameters e d action) # rest)) \<and>
    (CreateOrUpdate cl w1 (Get_string (resource_group_name d)) (Get_string (name d))
       (createUpdate_parameters e d action) = (created, None) \<and>
     Get cl (w1 @ [CreateOrUpdateCall (Get_string (resource_group_name d)) (Get_string (name d))
                     (createUpdate_parameters e d action)])
       (Get_string (resource_group_name d)) (Get_string (name d)) = (rd, None) \<and>
     ID rd = Some j \<longrightarrow>
     resourceArmMonitorScheduledQueryRulesLogCreateUpdate e cl d w =
       resourceArmMonitorScheduledQueryRulesLogRead e cl (d\<lparr>d_Id := j\<rparr>)
         (w1 @ [CreateOrUpdateCall (Get_string (resource_group_name d)) (Get_string (name d))
                  (createUpdate_parameters e d action),
                GetCall (Get_string (resource_group_name d)) (Get_string (name d))])))"
proof (intro conjI impI)
  assume "ShouldResourcesBeImported e \<and> IsNewResource d \<and>
    Get cl w (Get_string (resource_group_name d)) (Get_string (name d)) = (existing, err) \<and>
    (err = None \<or> utils_ResponseWasNotFound (Response existing)) \<and>
    ID existing = Some i \<and> i \<noteq> []"
  then show "resourceArmMonitorScheduledQueryRulesLogCreateUpdate e cl d w =
      (Some (ImportAsExistsError ''azurerm_monitor_scheduled_query_rules_log'' i), d,
       w @ [GetCall (Get_string (resource_group_name d)) (Get_string (name d))])"
    using create_exists[of e d cl w existing err i] by blast
next
  assume "ShouldResourcesBeImported e \<and> IsNewResource d \<and>
    Get cl w (Get_string (resource_group_name d)) (Get_string (name d)) = (failed, Some msg) \<and>
    \<not> utils_ResponseWasNotFound (Response failed)"
  then show "resourceArmMonitorScheduledQueryRulesLogCreateUpdate e cl d w =
      (Some (ErrorCheckingPresence (Get_string (name d)) (Get_string (resource_group_name d)) msg),
       d, w @ [GetCall (Get_string (resource_group_name d)) (Get_string (name d))])"
    using create_check_fails[of e d cl w failed msg] by blast
next
  assume a: "(\<not> (ShouldResourcesBeImported e \<and> IsNewResource d) \<and> w1 = w \<or>
     ShouldResourcesBeImported e \<and> IsNewResource d \<and>
       Get cl w (Get_string (resource_group_name d)) (Get_string (name d)) = (absent, aerr) \<and>
       (aerr = None \<or> utils_ResponseWasNotFound (Response absent)) \<and>
       (ID absent = None \<or> ID absent = Some []) \<and>
       w1 = w @ [GetCall (Get_string (resource_group_name d)) (Get_string (name d))]) \<and>
    expandMonitorScheduledQueryRulesLogToMetricAction d = Inr action"
  from a show "\<exists>r d' rest.
       resourceArmMonitorScheduledQueryRulesLogCreateUpdate e cl d w =
         (r, d',
          w1 @ CreateOrUpdateCall (Get_string (resource_group_name d)) (Get_string (name d))
                 (createUpdate_parameters e d action) # rest)"
    using create_issues_call[of e d w1 w cl absent aerr action] by blast
next
  assume a: "(\<not> (ShouldResourcesBeImported e \<and> IsNewResource d) \<and> w1 = w \<or>
     ShouldResourcesBeImported e \<and> IsNewResource d \<and>
       Get cl w (Get_string (resource_group_name d)) (Get_string (name d)) = (absent, aerr) \<and>
       (aerr = None \<or> utils_ResponseWasNotFound (Response absent)) \<and>
       (ID absent = None \<or> ID absent = Some []) \<and>
       w1 = w @ [GetCall (Get_string (resource_group_name d)) (Get_string (name d))]) \<and>
    expandMonitorScheduledQueryRulesLogToMetricAction d = Inr action"
  assume b: "CreateOrUpdate cl w1 (Get_string (resource_group_name d)) (Get_string (name d))
       (createUpdate_parameters e d action) = (created, None) \<and>
     Get cl (w1 @ [CreateOrUpdateCall (Get_string (resource_group_name d)) (Get_string (name d))
                     (createUpdate_parameters e d action)])
       (Get_string (resource_group_name d)) (Get_string (name d)) = (rd, None) \<and>
     ID rd = Some j"
  from a have chk: "\<not> (ShouldResourcesBeImported e \<and> IsNewResource d) \<and> w1 = w \<or>
     ShouldResourcesBeImported e \<and> IsNewResource d \<and>
       Get cl w (Get_string (resource_group_name d)) (Get_string (name d)) = (absent, aerr) \<and>
       (aerr = None \<or> utils_ResponseWasNotFound (Response absent)) \<and>
       (ID absent = None \<or> ID absent = Some []) \<and>
       w1 = w @ [GetCall (Get_string (resource_group_name d)) (Get_string (name d))]"
    and ex: "expandMonitorScheduledQueryRulesLogToMetricAction d = Inr action"
    by blast+
  from b have cr: "CreateOrUpdate cl w1 (Get_string (resource_group_name d)) (Get_string (name d))
       (createUpdate_parameters e d action) = (created, None)"
    and gt: "Get cl (w1 @ [CreateOrUpdateCall (Get_string (resource_group_name d)) (Get_string (name d))
                     (createUpdate_parameters e d action)])
       (Get_string (resource_group_name d)) (Get_string (name d)) = (rd, None)"
    and idn: "ID rd = Some j"
    by blast+
  show "resourceArmMonitorScheduledQueryRulesLogCreateUpdate e cl d w =
       resourceArmMonitorScheduledQueryRulesLogRead e cl (d\<lparr>d_Id := j\<rparr>)
         (w1 @ [CreateOrUpdateCall (Get_string (resource_group_name d)) (Get_string (name d))
                  (createUpdate_parameters e d action),
                GetCall (Get_string (resource_group_name d)) (Get_string (name d))])"
    by (rule create_then_read[OF chk ex cr gt idn])
qed

text \<open>
  C6, as the claim states it, fails when the import check itself fails: the Get below
  answers with status 500 and no identifier, so no remote object is reported, and yet
  the handler returns the presence-check error after that one Get, with no create or
  update call and no Read.
\<close>

theorem create_check_failure_counterexample:
  "ShouldResourcesBeImported example_env \<and> IsNewResource example_d \<and>
   ID (fst (Get (failing_client 500 ''boom'') [] ''rg1'' ''r1'')) = None \<and>
   resourceArmMonitorScheduledQueryRulesLogCreateUpdate example_env (failing_client 500 ''boom'')
     example_d [] =
     (Some (ErrorCheckingPresence ''r1'' ''rg1'' ''boom''), example_d, [GetCall ''rg1'' ''r1''])"
  by (simp add: resourceArmMonitorScheduledQueryRulesLogCreateUpdate_def example_env_def
      example_d_def failing_client_def no_object_def Get_string_def Let_def
      utils_ResponseWasNotFound_def response_WasNotFound_def)

theorem create_update_import_protection_witness:
  "resourceArmMonitorScheduledQueryRulesLogCreateUpdate example_env
     (holding_client (example_remote (Value_LogToMetricAction example_action) (Some example_id)))
     example_d [] =
     (Some (ImportAsExistsError ''azurerm_monitor_scheduled_query_rules_log'' example_id),
      example_d, [GetCall ''rg1'' ''r1'']) \<and>
   resourceArmMonitorScheduledQueryRulesLogCreateUpdate example_env (failing_client 500 ''boom'')
     example_d [] =
     (Some (ErrorCheckingPresence ''r1'' ''rg1'' ''boom''), example_d, [GetCall ''rg1'' ''r1'']) \<and>
   (\<exists>r d' rest.
      resourceArmMonitorScheduledQueryRulesLogCreateUpdate example_env
        (fresh_client (example_remote (Value_LogToMetricAction example_action) (Some example_id)))
        example_d [] =
        (r, d',
         [GetCall ''rg1'' ''r1'',
          CreateOrUpdateCall ''rg1'' ''r1''
            (createUpdate_parameters example_env example_d example_expanded)] @ rest)) \<and>
   resourceArmMonitorScheduledQueryRulesLogCreateUpdate example_env
     (fresh_client (example_remote (Value_LogToMetricAction example_action) (Some example_id)))
     example_d [] =
     resourceArmMonitorScheduledQueryRulesLogRead example_env
       (fresh_client (example_remote (Value_LogToMetricAction example_action) (Some example_id)))
       (example_d\<lparr>d_Id := example_id\<rparr>)
       [GetCall ''rg1'' ''r1'',
        CreateOrUpdateCall ''rg1'' ''r1''
          (createUpdate_parameters example_env example_d example_expanded),
        GetCall ''rg1'' ''r1'']"
proof -
  let ?R = "example_remote (Value_LogToMetricAction example_action) (Some example_id)"
  let ?par = "createUpdate_parameters example_env example_d example_expanded"
  have nm: "Get_string (name example_d) = ''r1''"
    and rg: "Get_string (resource_group_name example_d) = ''rg1''"
    and new: "IsNewResource example_d"
    by (simp_all add: example_d_def Get_string_def)
  have imp: "ShouldResourcesBeImported example_env"
    by (simp add: example_env_def)
  have idn: "ID ?R = Some example_id" "example_id \<noteq> []"
    by (simp_all add: example_remote_def example_id_def)
  have ex: "expandMonitorScheduledQueryRulesLogToMetricAction example_d = Inr example_expanded"
    by (simp add: expandMonitorScheduledQueryRulesLogToMetricAction_def Get_criteria_def
        example_d_def example_criteria_def example_expanded_def
        expandMonitorScheduledQueryRulesLogCriteria_def expandDimension_def
        ExpandStringSlice_def)
  have h1: "ShouldResourcesBeImported example_env \<and> IsNewResource example_d \<and>
      Get (holding_client ?R) [] (Get_string (resource_group_name example_d))
        (Get_string (name example_d)) = (?R, None) \<and>
      (None = None \<or> utils_ResponseWasNotFound (Response ?R)) \<and>
      ID ?R = Some example_id \<and> example_id \<noteq> []"
    using imp new idn by (simp add: holding_client_def)
  have h2: "ShouldResourcesBeImported example_env \<and> IsNewResource example_d \<and>
      Get (failing_client 500 ''boom'') [] (Get_string (resource_group_name example_d))
        (Get_string (name example_d)) = (no_object 500, Some ''boom'') \<and>
      \<not> utils_ResponseWasNotFound (Response (no_object 500))"
    using imp new
    by (simp add: failing_client_def no_object_def utils_ResponseWasNotFound_def
        response_WasNotFound_def)
  have h3: "(\<not> (ShouldResourcesBeImported example_env \<and> IsNewResource example_d) \<and>
        [GetCall ''rg1'' ''r1''] = [] \<or>
      ShouldResourcesBeImported example_env \<and> IsNewResource example_d \<and>
        Get (fresh_client ?R) [] (Get_string (resource_group_name example_d))
          (Get_string (name example_d)) = (no_object 404, Some ''not found'') \<and>
        (Some ''not found'' = None \<or> utils_ResponseWasNotFound (Response (no_object 404))) \<and>
        (ID (no_object 404) = None \<or> ID (no_object 404) = Some []) \<and>
        [GetCall ''rg1'' ''r1''] =
          [] @ [GetCall (Get_string (resource_group_name example_d)) (Get_string (name example_d))]) \<and>
      expandMonitorScheduledQueryRulesLogToMetricAction example_d = Inr example_expanded"
    using imp new ex
    by (simp add: fresh_client_def no_object_def utils_ResponseWasNotFound_def
        response_WasNotFound_def nm rg)
  have h4: "CreateOrUpdate (fresh_client ?R) [GetCall ''rg1'' ''r1'']
        (Get_string (resource_group_name example_d)) (Get_string (name example_d)) ?par =
        (?R, None) \<and>
      Get (fresh_client ?R)
        ([GetCall ''rg1'' ''r1''] @
         [CreateOrUpdateCall (Get_string (resource_group_name example_d))
            (Get_string (name example_d)) ?par])
        (Get_string (resource_group_name example_d)) (Get_string (name example_d)) = (?R, None) \<and>
      ID ?R = Some example_id"
    using idn by (simp add: fresh_client_def)
  note t = create_update_import_protection[where e = example_env and d = example_d and w = "[]"]
  from t[where cl = "holding_client ?R" and existing = ?R and err = None and i = example_id] h1
  have c1: "resourceArmMonitorScheduledQueryRulesLogCreateUpdate example_env (holding_client ?R)
              example_d [] =
            (Some (ImportAsExistsError ''azurerm_monitor_scheduled_query_rules_log'' example_id),
             example_d,
             [] @ [GetCall (Get_string (resource_group_name example_d)) (Get_string (name example_d))])"
    by blast
  from t[where cl = "failing_client 500 ''boom''" and failed = "no_object 500" and msg = "''boom''"] h2
  have c2: "resourceArmMonitorScheduledQueryRulesLogCreateUpdate example_env
              (failing_client 500 ''boom'') example_d [] =
            (Some (ErrorCheckingPresence (Get_string (name example_d))
                     (Get_string (resource_group_name example_d)) ''boom''),
             example_d,
             [] @ [GetCall (Get_string (resource_group_name example_d)) (Get_string (name example_d))])"
    by blast
  note t3 = t[where cl = "fresh_client ?R" and ?w1.0 = "[GetCall ''rg1'' ''r1'']"
      and absent = "no_object 404" and aerr = "Some ''not found''" and action = example_expanded
      and created = ?R and rd = ?R and j = example_id]
  from t3 h3
  have c3: "\<exists>r d' rest.
       resourceArmMonitorScheduledQueryRulesLogCreateUpdate example_env (fresh_client ?R) example_d [] =
         (r, d',
          [GetCall ''rg1'' ''r1''] @
          CreateOrUpdateCall (Get_string (resource_group_name example_d)) (Get_string (name example_d))
            ?par # rest)"
    by blast
  from t3 h3 h4
  have c4: "resourceArmMonitorScheduledQueryRulesLogCreateUpdate example_env (fresh_client ?R)
              example_d [] =
            resourceArmMonitorScheduledQueryRulesLogRead example_env (fresh_client ?R)
              (example_d\<lparr>d_Id := example_id\<rparr>)
              ([GetCall ''rg1'' ''r1''] @
               [CreateOrUpdateCall (Get_string (resource_group_name example_d))
                  (Get_string (name example_d)) ?par,
                GetCall (Get_string (resource_group_name example_d)) (Get_string (name example_d))])"
    by blast
  from c1 c2 c3 c4 show ?thesis
    unfolding nm rg by simp
qed

end
